theory Spec2Isabelle
  imports Main
begin

section \<open>Type inference for NumPy calls (numba/type_inference/modules/numpymodule.py)\<close>

subsection \<open>The type domain\<close>

text \<open>
  Modelled from the spec: the classes of the type domain (\<^verbatim>\<open>minitypes\<close>,
  \<^verbatim>\<open>typesystem\<close>) are not part of the source file; the constructors below follow
  the spec's data model, with the attributes the source file reads from each kind of type
  (\<^verbatim>\<open>dtype\<close>, \<^verbatim>\<open>ndim\<close>, \<^verbatim>\<open>size\<close>, \<^verbatim>\<open>is_sized\<close>, \<^verbatim>\<open>module\<close>, \<^verbatim>\<open>attr\<close>)
  as their fields.
  \<^item> \<open>IntT width signed\<close>, \<open>FloatT width\<close>, \<open>ComplexT width\<close>, \<open>BoolT\<close>: the scalar
    element kinds;
  \<^item> \<open>Object\<close>: \<^verbatim>\<open>object_\<close>, the dynamic fallback type;
  \<^item> \<open>Array dtype ndim\<close>: an array type; \<open>ndim\<close> is a Python integer;
  \<^item> \<open>NumpyDtype dtype\<close>: the type of a value that denotes a dtype;
  \<^item> \<open>NumpyAttribute module attr\<close>: a reference to a member of a namespace;
  \<^item> \<open>TupleT dtype size is_sized\<close>, \<open>ListT dtype size is_sized\<close>: containers with their
    element, their element count and whether that count is statically known. The source
    reaches the element's type as \<^verbatim>\<open>type.dtype.variable.type\<close>.
\<close>

datatype ty =
    IntT nat bool
  | FloatT nat
  | ComplexT nat
  | BoolT
  | Object
  | Array ty int
  | NumpyDtype ty
  | NumpyAttribute string string
  | TupleT ty int bool
  | ListT ty int bool

definition float64 :: ty where
  "float64 = FloatT 64"

definition int64 :: ty where
  "int64 = IntT 64 True"

text \<open>
  Modelled from the spec: \<^verbatim>\<open>npy_intp\<close>, the platform's index-integer kind, is imported
  from outside the source file; it is taken as the signed 64-bit integer.
\<close>

definition npy_intp :: ty where
  "npy_intp = IntT 64 True"

text \<open>\<^verbatim>\<open>index_array_t = npy_intp[:]\<close>: slicing a type once gives its one-dimensional array.\<close>

definition index_array_t :: ty where
  "index_array_t = Array npy_intp 1"

text \<open>The classification predicates: an \<^verbatim>\<open>is_*\<close> flag holds of its own kind only.\<close>

fun is_array :: "ty \<Rightarrow> bool" where
  "is_array (Array d n) = True"
| "is_array t = False"

fun is_tuple :: "ty \<Rightarrow> bool" where
  "is_tuple (TupleT d s z) = True"
| "is_tuple t = False"

fun is_list :: "ty \<Rightarrow> bool" where
  "is_list (ListT d s z) = True"
| "is_list t = False"

fun is_int :: "ty \<Rightarrow> bool" where
  "is_int (IntT w s) = True"
| "is_int t = False"

fun is_object :: "ty \<Rightarrow> bool" where
  "is_object Object = True"
| "is_object t = False"

fun is_numpy_dtype :: "ty \<Rightarrow> bool" where
  "is_numpy_dtype (NumpyDtype d) = True"
| "is_numpy_dtype t = False"

fun is_numpy_attribute :: "ty \<Rightarrow> bool" where
  "is_numpy_attribute (NumpyAttribute m a) = True"
| "is_numpy_attribute t = False"

fun is_sized :: "ty \<Rightarrow> bool" where
  "is_sized (TupleT d s z) = z"
| "is_sized (ListT d s z) = z"
| "is_sized t = False"

subsection \<open>Exceptions and attribute reads\<close>

text \<open>
  A Python exception is a value: a resolver returns \<open>Inl e\<close> when it raises \<open>e\<close>,
  \<open>Inr None\<close> when it returns \<^verbatim>\<open>None\<close> (no result) and \<open>Inr (Some t)\<close> when it
  returns the type \<open>t\<close>.
\<close>

datatype error = AttributeError | TypeError

type_synonym 'a result = "error + 'a"

text \<open>Reading an attribute that the value does not have raises \<^verbatim>\<open>AttributeError\<close>.\<close>

fun attr_dtype :: "ty \<Rightarrow> ty result" where
  "attr_dtype (Array d n) = Inr d"
| "attr_dtype (NumpyDtype d) = Inr d"
| "attr_dtype (TupleT d s z) = Inr d"
| "attr_dtype (ListT d s z) = Inr d"
| "attr_dtype t = Inl AttributeError"

fun attr_ndim :: "ty \<Rightarrow> int result" where
  "attr_ndim (Array d n) = Inr n"
| "attr_ndim t = Inl AttributeError"

fun attr_size :: "ty \<Rightarrow> int result" where
  "attr_size (TupleT d s z) = Inr s"
| "attr_size (ListT d s z) = Inr s"
| "attr_size t = Inl AttributeError"

text \<open>\<^verbatim>\<open>x.dtype\<close> where \<open>x\<close> may be \<^verbatim>\<open>None\<close>: \<^verbatim>\<open>None\<close> has no attribute.\<close>

fun opt_attr_dtype :: "ty option \<Rightarrow> ty result" where
  "opt_attr_dtype None = Inl AttributeError"
| "opt_attr_dtype (Some t) = attr_dtype t"

text \<open>
  Modelled from the spec: \<^verbatim>\<open>get_type\<close> is imported from outside the source file; it
  returns the already inferred type of an expression node. A call-site argument is a
  \<open>ty option\<close>: \<open>None\<close> is the absent argument (Python's \<^verbatim>\<open>None\<close>) and \<open>Some t\<close> a
  node whose \<^verbatim>\<open>variable.type\<close> is \<open>t\<close>. On \<^verbatim>\<open>None\<close> the read of \<^verbatim>\<open>variable\<close> fails as
  it does in \<^verbatim>\<open>array_from_object\<close>.
\<close>

fun get_type :: "ty option \<Rightarrow> ty result" where
  "get_type None = Inl AttributeError"
| "get_type (Some t) = Inr t"

text \<open>
  Modelled from the spec: \<^verbatim>\<open>typesystem.array(dtype, ndim)\<close> builds the array type of
  that element kind and rank (a rank of zero still gives an array).
\<close>

definition array_t :: "ty \<Rightarrow> int \<Rightarrow> ty" where
  "array_t d n = Array d n"

text \<open>
  Modelled from the spec: \<^verbatim>\<open>typesystem.tuple_(base, size)\<close> builds the sized tuple of
  \<open>size\<close> elements; without a size it builds the singleton tuple. (\<open>tuple'\<close> stands
  for the source's \<^verbatim>\<open>tuple_\<close>.)
\<close>

fun tuple' :: "ty \<Rightarrow> int option \<Rightarrow> ty" where
  "tuple' b (Some n) = TupleT b n True"
| "tuple' b None = TupleT b 1 True"

subsection \<open>Some utilities\<close>

text \<open>
  The members of a namespace, as \<^verbatim>\<open>resolve_attribute_dtype\<close> tells them apart:
  \<^verbatim>\<open>None\<close>, an instance of \<^verbatim>\<open>np.dtype\<close>, a class deriving from \<^verbatim>\<open>np.generic\<close>
  (with the element kind \<^verbatim>\<open>np.dtype\<close> gives it), another class, and a value that is
  not a class. A namespace maps a module name and an attribute name to a member, if any.
\<close>

datatype pyval = PyNone | DtypeInstance ty | GenericClass ty | OtherClass | OtherValue

type_synonym namespace = "string \<Rightarrow> string \<Rightarrow> pyval option"

text \<open>\<^verbatim>\<open>getattr(module, attr, None)\<close>\<close>

definition getattr_default :: "namespace \<Rightarrow> string \<Rightarrow> string \<Rightarrow> pyval" where
  "getattr_default ns m a = (case ns m a of None \<Rightarrow> PyNone | Some v \<Rightarrow> v)"

text \<open>
  \<^verbatim>\<open>
  def resolve_attribute_dtype(dtype, default=None):
      if dtype.is_numpy_dtype:
          return dtype
      if dtype.is_numpy_attribute:
          numpy_attr = getattr(dtype.module, dtype.attr, None)
          if isinstance(numpy_attr, np.dtype):
              return typesystem.NumpyDtypeType(dtype=numpy_attr)
          elif issubclass(numpy_attr, np.generic):
              return typesystem.NumpyDtypeType(dtype=np.dtype(numpy_attr))
  \<close>
  \<^verbatim>\<open>issubclass\<close> raises \<^verbatim>\<open>TypeError\<close> when its first argument is not a class; a
  function that reaches its end returns \<^verbatim>\<open>None\<close>. The parameter \<^verbatim>\<open>default\<close> is not
  used by the source. The namespace \<open>ns\<close> stands for the modules the attribute types
  refer to; \<^verbatim>\<open>NumpyDtypeType(dtype=...)\<close> of a dtype instance or of \<^verbatim>\<open>np.dtype\<close> of a
  scalar class is the dtype value type of that element kind.
\<close>

fun resolve_attribute_dtype :: "namespace \<Rightarrow> ty \<Rightarrow> ty option result" where
  "resolve_attribute_dtype ns (NumpyDtype d) = Inr (Some (NumpyDtype d))"
| "resolve_attribute_dtype ns (NumpyAttribute m a) =
     (case getattr_default ns m a of
        DtypeInstance d \<Rightarrow> Inr (Some (NumpyDtype d))
      | GenericClass d \<Rightarrow> Inr (Some (NumpyDtype d))
      | OtherClass \<Rightarrow> Inr None
      | PyNone \<Rightarrow> Inl TypeError
      | OtherValue \<Rightarrow> Inl TypeError)"
| "resolve_attribute_dtype ns t = Inr None"

text \<open>
  \<^verbatim>\<open>
  def get_dtype(dtype_arg, default_dtype=None):
      if dtype_arg is None:
          if default_dtype is None:
              return None
          dtype = typesystem.NumpyDtypeType(dtype=np.dtype(default_dtype))
          return dtype
      else:
          return resolve_attribute_dtype(dtype_arg.variable.type)
  \<close>
  \<^verbatim>\<open>NumpyDtypeType(dtype=np.dtype(default_dtype))\<close> is the dtype value type of the
  default element kind.
\<close>

fun get_dtype :: "namespace \<Rightarrow> ty option \<Rightarrow> ty option \<Rightarrow> ty option result" where
  "get_dtype ns None None = Inr None"
| "get_dtype ns None (Some default_dtype) = Inr (Some (NumpyDtype default_dtype))"
| "get_dtype ns (Some t) default_dtype = resolve_attribute_dtype ns t"

text \<open>
  \<^verbatim>\<open>
  def promote_to_array(dtype):
      if not dtype.is_array:
          dtype = minitypes.ArrayType(dtype, 0)
      return dtype
  \<close>
\<close>

definition promote_to_array :: "ty \<Rightarrow> ty" where
  "promote_to_array dtype = (if \<not> is_array dtype then Array dtype 0 else dtype)"

text \<open>
  \<^verbatim>\<open>
  def array_from_object(a):
      return array_from_type(a.variable.type)

  def array_from_type(type):
      if type.is_array:
          return type
      elif type.is_tuple or type.is_list:
          dtype = array_from_object(type.dtype)
          if dtype.is_array:
              type = dtype.copy()
              type.ndim += 1
              return type
      elif not type.is_object:
          return minitypes.ArrayType(dtype=type, ndim=0)
      return object_
  \<close>
  The equations of \<open>array_from_type\<close> are in the order of the source's tests; the last
  one is the branch of every type that is neither an array, a container nor an object.
\<close>

fun array_from_object :: "ty option \<Rightarrow> ty result"
  and array_from_type :: "ty \<Rightarrow> ty result" where
  "array_from_object None = Inl AttributeError"
| "array_from_object (Some t) = array_from_type t"
| "array_from_type (Array d n) = Inr (Array d n)"
| "array_from_type (TupleT d s z) =
     (case array_from_object (Some d) of
        Inl e \<Rightarrow> Inl e
      | Inr elem \<Rightarrow>
          (case elem of Array d' n' \<Rightarrow> Inr (Array d' (n' + 1)) | _ \<Rightarrow> Inr Object))"
| "array_from_type (ListT d s z) =
     (case array_from_object (Some d) of
        Inl e \<Rightarrow> Inl e
      | Inr elem \<Rightarrow>
          (case elem of Array d' n' \<Rightarrow> Inr (Array d' (n' + 1)) | _ \<Rightarrow> Inr Object))"
| "array_from_type Object = Inr Object"
| "array_from_type t = Inr (Array t 0)"

subsection \<open>Resolution of NumPy calls\<close>

text \<open>
  \<^verbatim>\<open>context.promote_types\<close> belongs to the compiler's context, outside the source
  file: the context is a parameter of the resolvers that use it.
\<close>

record numba_context =
  promote_types :: "ty \<Rightarrow> ty \<Rightarrow> ty"

text \<open>
  \<^verbatim>\<open>
  def dtype(obj, align):
      if obj is None:
          return None
      return get_dtype(obj)
  \<close>
\<close>

definition dtype :: "namespace \<Rightarrow> ty option \<Rightarrow> ty option \<Rightarrow> ty option result" where
  "dtype ns obj align = (if obj = None then Inr None else get_dtype ns obj None)"

text \<open>
  \<^verbatim>\<open>
  def empty_like(a, dtype, order):
      if a is None:
          return None
      type = get_type(a)
      if type.is_array:
          if dtype:
              dtype_type = get_dtype(dtype)
              if dtype_type is None:
                  return type
              dtype = dtype_type.dtype
          else:
              dtype = type.dtype
          return typesystem.array(dtype, type.ndim)
  \<close>
  An expression node is true as a condition, so \<^verbatim>\<open>if dtype\<close> tests that the argument is
  present.
\<close>

definition empty_like ::
  "namespace \<Rightarrow> ty option \<Rightarrow> ty option \<Rightarrow> ty option \<Rightarrow> ty option result" where
  "empty_like ns a dtype_arg order =
     (if a = None then Inr None
      else (case get_type a of
        Inl e \<Rightarrow> Inl e
      | Inr type \<Rightarrow>
          if is_array type then
            (case (if dtype_arg \<noteq> None then
                     (case get_dtype ns dtype_arg None of
                        Inl e \<Rightarrow> Inl e
                      | Inr None \<Rightarrow> Inr None
                      | Inr (Some dtype_type) \<Rightarrow> map_sum id Some (attr_dtype dtype_type))
                   else map_sum id Some (attr_dtype type)) of
               Inl e \<Rightarrow> Inl e
             | Inr None \<Rightarrow> Inr (Some type)
             | Inr (Some d) \<Rightarrow>
                 (case attr_ndim type of
                    Inl e \<Rightarrow> Inl e
                  | Inr n \<Rightarrow> Inr (Some (array_t d n))))
          else Inr None))"

definition zeros_like ::
  "namespace \<Rightarrow> ty option \<Rightarrow> ty option \<Rightarrow> ty option \<Rightarrow> ty option result" where
  "zeros_like = empty_like"

definition ones_like ::
  "namespace \<Rightarrow> ty option \<Rightarrow> ty option \<Rightarrow> ty option \<Rightarrow> ty option result" where
  "ones_like = empty_like"

text \<open>
  \<^verbatim>\<open>
  def empty(shape, dtype, order):
      if shape is None:
          return None
      dtype = get_dtype(dtype, float64)
      shape_type = get_type(shape)
      if shape_type.is_int:
          ndim = 1
      elif shape_type.is_tuple or shape_type.is_list:
          ndim = shape_type.size
      else:
          return None
      return typesystem.array(dtype.dtype, ndim)
  \<close>
\<close>

definition empty ::
  "namespace \<Rightarrow> ty option \<Rightarrow> ty option \<Rightarrow> ty option \<Rightarrow> ty option result" where
  "empty ns shape dtype_arg order =
     (if shape = None then Inr None
      else (case get_dtype ns dtype_arg (Some float64) of
        Inl e \<Rightarrow> Inl e
      | Inr dtype_type \<Rightarrow>
          (case get_type shape of
             Inl e \<Rightarrow> Inl e
           | Inr shape_type \<Rightarrow>
               (case (if is_int shape_type then Inr (Some 1)
                      else if is_tuple shape_type \<or> is_list shape_type
                        then map_sum id Some (attr_size shape_type)
                      else Inr None) of
                  Inl e \<Rightarrow> Inl e
                | Inr None \<Rightarrow> Inr None
                | Inr (Some ndim) \<Rightarrow>
                    (case opt_attr_dtype dtype_type of
                       Inl e \<Rightarrow> Inl e
                     | Inr d \<Rightarrow> Inr (Some (array_t d ndim)))))))"

definition zeros ::
  "namespace \<Rightarrow> ty option \<Rightarrow> ty option \<Rightarrow> ty option \<Rightarrow> ty option result" where
  "zeros = empty"

definition ones ::
  "namespace \<Rightarrow> ty option \<Rightarrow> ty option \<Rightarrow> ty option \<Rightarrow> ty option result" where
  "ones = empty"

text \<open>
  \<^verbatim>\<open>
  def arange(start, stop, step, dtype):
      dtype_type = get_dtype(dtype, int64)
      if dtype_type is not None:
          return dtype_type.dtype[:]
  \<close>
  Slicing an element kind once, \<^verbatim>\<open>t[:]\<close>, gives its one-dimensional array type.
\<close>

definition arange ::
  "namespace \<Rightarrow> ty option \<Rightarrow> ty option \<Rightarrow> ty option \<Rightarrow> ty option \<Rightarrow> ty option result" where
  "arange ns start stop step dtype_arg =
     (case get_dtype ns dtype_arg (Some int64) of
        Inl e \<Rightarrow> Inl e
      | Inr None \<Rightarrow> Inr None
      | Inr (Some dtype_type) \<Rightarrow>
          (case attr_dtype dtype_type of
             Inl e \<Rightarrow> Inl e
           | Inr d \<Rightarrow> Inr (Some (Array d 1))))"

text \<open>
  \<^verbatim>\<open>
  def dot(context, a, b, out):
      if out is not None:
          return get_type(out)
      lhs_type = promote_to_array(get_type(a))
      rhs_type = promote_to_array(get_type(b))
      dtype = context.promote_types(lhs_type.dtype, rhs_type.dtype)
      dst_ndim = lhs_type.ndim + rhs_type.ndim - 2
      result_type = typesystem.array(dtype, dst_ndim)
      return result_type
  \<close>
\<close>

definition dot ::
  "numba_context \<Rightarrow> ty option \<Rightarrow> ty option \<Rightarrow> ty option \<Rightarrow> ty option result" where
  "dot ctx a b out =
     (if out \<noteq> None then map_sum id Some (get_type out)
      else (case get_type a of
        Inl e \<Rightarrow> Inl e
      | Inr ta \<Rightarrow>
          (case get_type b of
             Inl e \<Rightarrow> Inl e
           | Inr tb \<Rightarrow>
               (let lhs_type = promote_to_array ta; rhs_type = promote_to_array tb in
                case attr_dtype lhs_type of
                  Inl e \<Rightarrow> Inl e
                | Inr ld \<Rightarrow>
                    (case attr_dtype rhs_type of
                       Inl e \<Rightarrow> Inl e
                     | Inr rd \<Rightarrow>
                         (case attr_ndim lhs_type of
                            Inl e \<Rightarrow> Inl e
                          | Inr ln \<Rightarrow>
                              (case attr_ndim rhs_type of
                                 Inl e \<Rightarrow> Inl e
                               | Inr rn \<Rightarrow>
                                   Inr (Some (array_t (promote_types ctx ld rd)
                                                (ln + rn - 2))))))))))"

text \<open>
  Modelled from the spec: \<^verbatim>\<open>type.copy(dtype=...)\<close> is a method of the type classes,
  outside the source file; it overrides the element kind of an array type and keeps its
  rank. The dynamic fallback type has no element kind and is left as it is.
\<close>

fun copy_dtype :: "ty \<Rightarrow> ty \<Rightarrow> ty" where
  "copy_dtype (Array d n) x = Array x n"
| "copy_dtype t x = t"

text \<open>
  \<^verbatim>\<open>
  def array(object, dtype, order, subok):
      type = array_from_object(object)
      if dtype is not None:
          type = type.copy(dtype=get_type(dtype))
      return type
  \<close>
\<close>

definition array ::
  "ty option \<Rightarrow> ty option \<Rightarrow> ty option \<Rightarrow> ty option \<Rightarrow> ty option result" where
  "array object dtype_arg order subok =
     (case array_from_object object of
        Inl e \<Rightarrow> Inl e
      | Inr type \<Rightarrow>
          if dtype_arg \<noteq> None then
            (case get_type dtype_arg of
               Inl e \<Rightarrow> Inl e
             | Inr x \<Rightarrow> Inr (Some (copy_dtype type x)))
          else Inr (Some type))"

text \<open>
  \<^verbatim>\<open>
  def nonzero(a):
      return _nonzero(array_from_object(a))

  def _nonzero(type):
      if type.is_array:
          return typesystem.tuple_(index_array_t, type.ndim)
      else:
          return typesystem.tuple_(index_array_t)
  \<close>
  \<open>nonzero'\<close> stands for the source's \<^verbatim>\<open>_nonzero\<close>.
\<close>

definition nonzero' :: "ty \<Rightarrow> ty result" where
  "nonzero' type =
     (if is_array type then
        (case attr_ndim type of
           Inl e \<Rightarrow> Inl e
         | Inr n \<Rightarrow> Inr (tuple' index_array_t (Some n)))
      else Inr (tuple' index_array_t None))"

definition nonzero :: "ty option \<Rightarrow> ty option result" where
  "nonzero a =
     (case array_from_object a of
        Inl e \<Rightarrow> Inl e
      | Inr type \<Rightarrow> map_sum id Some (nonzero' type))"

text \<open>
  \<^verbatim>\<open>
  def where(context, condition, x, y):
      if x is None and y is None:
          return nonzero(condition)
      xtype = array_from_object(x)
      ytype = array_from_object(y)
      type = context.promote_types(xtype, ytype)
      return type
  \<close>
  \<open>np_where\<close> stands for the source's \<^verbatim>\<open>where\<close>.
\<close>

definition np_where ::
  "numba_context \<Rightarrow> ty option \<Rightarrow> ty option \<Rightarrow> ty option \<Rightarrow> ty option result" where
  "np_where ctx condition x y =
     (if x = None \<and> y = None then nonzero condition
      else (case array_from_object x of
        Inl e \<Rightarrow> Inl e
      | Inr xtype \<Rightarrow>
          (case array_from_object y of
             Inl e \<Rightarrow> Inl e
           | Inr ytype \<Rightarrow> Inr (Some (promote_types ctx xtype ytype)))))"

text \<open>
  \<^verbatim>\<open>
  def reduce_(a, axis, dtype, out):
      if out is not None:
          return get_type(out)
      array_type = get_type(a)
      dtype_type = get_dtype(dtype, default_dtype=array_type.dtype).dtype
      if axis is None:
          return dtype_type
      axis_type = get_type(axis)
      if axis_type.is_tuple and axis_type.is_sized:
          return typesystem.array(dtype_type, array_type.ndim - axis_type.size)
      elif axis_type.is_int:
          return typesystem.array(dtype_type, array_type.ndim - 1)
      else:
          return object_
  \<close>
  \<open>reduce'\<close> stands for the source's \<^verbatim>\<open>reduce_\<close>; it is registered as \<^verbatim>\<open>sum\<close> and
  as \<^verbatim>\<open>prod\<close>.
\<close>

definition reduce' ::
  "namespace \<Rightarrow> ty option \<Rightarrow> ty option \<Rightarrow> ty option \<Rightarrow> ty option \<Rightarrow> ty option result" where
  "reduce' ns a axis dtype_arg out =
     (if out \<noteq> None then map_sum id Some (get_type out)
      else (case get_type a of
        Inl e \<Rightarrow> Inl e
      | Inr array_type \<Rightarrow>
          (case attr_dtype array_type of
             Inl e \<Rightarrow> Inl e
           | Inr default_dtype \<Rightarrow>
               (case get_dtype ns dtype_arg (Some default_dtype) of
                  Inl e \<Rightarrow> Inl e
                | Inr r \<Rightarrow>
                    (case opt_attr_dtype r of
                       Inl e \<Rightarrow> Inl e
                     | Inr dtype_type \<Rightarrow>
                         if axis = None then Inr (Some dtype_type)
                         else (case get_type axis of
                           Inl e \<Rightarrow> Inl e
                         | Inr axis_type \<Rightarrow>
                             if is_tuple axis_type \<and> is_sized axis_type then
                               (case attr_ndim array_type of
                                  Inl e \<Rightarrow> Inl e
                                | Inr n \<Rightarrow>
                                    (case attr_size axis_type of
                                       Inl e \<Rightarrow> Inl e
                                     | Inr k \<Rightarrow> Inr (Some (array_t dtype_type (n - k)))))
                             else if is_int axis_type then
                               (case attr_ndim array_type of
                                  Inl e \<Rightarrow> Inl e
                                | Inr n \<Rightarrow> Inr (Some (array_t dtype_type (n - 1))))
                             else Inr (Some Object)))))))"

definition np_sum ::
  "namespace \<Rightarrow> ty option \<Rightarrow> ty option \<Rightarrow> ty option \<Rightarrow> ty option \<Rightarrow> ty option result" where
  "np_sum = reduce'"

definition np_prod ::
  "namespace \<Rightarrow> ty option \<Rightarrow> ty option \<Rightarrow> ty option \<Rightarrow> ty option \<Rightarrow> ty option result" where
  "np_prod = reduce'"

subsection \<open>Concrete inputs and the rank invariant\<close>

text \<open>A namespace without members, and one whose members are all plain values.\<close>

definition no_members :: namespace where
  "no_members m a = None"

definition value_members :: namespace where
  "value_members m a = Some OtherValue"

text \<open>A context whose promotion keeps its left operand.\<close>

definition left_context :: numba_context where
  "left_context = \<lparr>promote_types = (\<lambda>a b. a)\<rparr>"

text \<open>The invariant of the data model: the rank of an array type is not negative.\<close>

fun nonneg_rank :: "ty \<Rightarrow> bool" where
  "nonneg_rank (Array d n) = (0 \<le> n)"
| "nonneg_rank t = True"

section \<open>Properties\<close>

subsection \<open>Array coercion\<close>

lemma array_from_type_shape:
  "(\<exists>d n. array_from_type t = Inr (Array d n)) \<or> array_from_type t = Inr Object"
  by (induction t) (auto split: ty.splits)

lemma array_from_type_Inr: "\<exists>r. array_from_type t = Inr r"
  using array_from_type_shape [of t] by auto

text \<open>
  C10: array coercion is idempotent. For every type \<open>t\<close>, \<open>array_from_type\<close> returns a
  type, and applying \<open>array_from_type\<close> to that type returns it again: coercing twice
  gives what coercing once gives.
\<close>

theorem array_from_type_idempotent:
  "(case array_from_type t of Inl e \<Rightarrow> Inl e | Inr r \<Rightarrow> array_from_type r) = array_from_type t \<and>
   (\<exists>r. array_from_type t = Inr r \<and> array_from_type r = Inr r)"
  using array_from_type_shape [of t] by auto

subsection \<open>Resolving dtypes\<close>

lemma get_dtype_cases:
  "get_dtype ns d (Some e) = Inl TypeError \<or> get_dtype ns d (Some e) = Inr None \<or>
   (\<exists>k. get_dtype ns d (Some e) = Inr (Some (NumpyDtype k)))"
  by (cases d; cases "the d"; auto split: pyval.splits)

lemma resolve_attribute_dtype_other:
  "\<not> is_numpy_dtype t \<Longrightarrow> \<not> is_numpy_attribute t \<Longrightarrow> resolve_attribute_dtype ns t = Inr None"
  by (cases t) simp_all

text \<open>
  C2: the dtype resolver on malformed input. The claim is that an attribute token that
  names no member of the namespace, or a member that is not a dtype, resolves to no result.
  The source raises instead: \<^verbatim>\<open>getattr\<close> with the default \<^verbatim>\<open>None\<close> gives a value that is
  not a class, and \<^verbatim>\<open>issubclass\<close> raises \<^verbatim>\<open>TypeError\<close> on it, in
  \<open>resolve_attribute_dtype\<close> and so in \<open>get_dtype\<close>; the same happens for a member that
  is a plain value.
\<close>

theorem resolve_attribute_dtype_raises:
  "resolve_attribute_dtype no_members (NumpyAttribute m a) = Inl TypeError \<and>
   get_dtype no_members (Some (NumpyAttribute m a)) default_dtype = Inl TypeError \<and>
   resolve_attribute_dtype value_members (NumpyAttribute m a) = Inl TypeError \<and>
   get_dtype value_members (Some (NumpyAttribute m a)) default_dtype = Inl TypeError"
  by (simp add: getattr_default_def no_members_def value_members_def)

subsection \<open>The resolvers\<close>

text \<open>
  C1: totality of the resolvers. The claim is that no resolver raises, whatever arguments
  are absent. The source raises \<^verbatim>\<open>AttributeError\<close> in \<^verbatim>\<open>where\<close> when exactly one of
  \<open>x\<close> and \<open>y\<close> is absent and in \<^verbatim>\<open>array\<close> when \<open>object\<close> is absent (both read
  \<^verbatim>\<open>variable\<close> from \<^verbatim>\<open>None\<close> in \<open>array_from_object\<close>), and in \<^verbatim>\<open>empty\<close> and
  \<^verbatim>\<open>sum\<close>/\<^verbatim>\<open>prod\<close> when the dtype argument is present and does not resolve (both read
  \<^verbatim>\<open>dtype\<close> from the \<^verbatim>\<open>None\<close> that \<open>get_dtype\<close> returned).
\<close>

theorem resolvers_raise_on_absent:
  "np_where ctx condition (Some t) None = Inl AttributeError \<and>
   np_where ctx condition None (Some t) = Inl AttributeError \<and>
   array None dtype_arg order subok = Inl AttributeError \<and>
   empty ns (Some (IntT w s)) (Some BoolT) order = Inl AttributeError \<and>
   reduce' ns (Some (Array e r)) axis (Some BoolT) None = Inl AttributeError"
  using array_from_type_Inr [of t]
  by (auto simp: np_where_def array_def empty_def reduce'_def)

text \<open>
  C3: a call to \<^verbatim>\<open>zeros\<close> (the resolver it shares with \<^verbatim>\<open>empty\<close> and \<^verbatim>\<open>ones\<close>)
  whose shape argument is a sized tuple of two integers, with the dtype and order
  arguments absent, gives the array type of \<open>float64\<close> elements and rank 2.
\<close>

theorem zeros_pair_shape:
  "zeros ns (Some (TupleT (IntT w s) 2 True)) None None = Inr (Some (Array float64 2)) \<and>
   empty ns (Some (TupleT (IntT w s) 2 True)) None None = Inr (Some (Array float64 2)) \<and>
   ones ns (Some (TupleT (IntT w s) 2 True)) None None = Inr (Some (Array float64 2))"
  by (simp add: zeros_def ones_def empty_def array_t_def)

text \<open>
  The axis policy of \<^verbatim>\<open>sum\<close> and \<^verbatim>\<open>prod\<close> with \<open>out\<close> absent, on an array of element
  kind \<open>e\<close> and rank \<open>r\<close>, when the dtype argument resolves to the element kind \<open>k\<close>
  (which is \<open>e\<close> when the dtype argument is absent): an absent axis gives the scalar \<open>k\<close>;
  an integer axis gives the array of \<open>k\<close> of rank \<open>r - 1\<close>; a sized tuple axis of \<open>n\<close>
  elements gives the array of \<open>k\<close> of rank \<open>r - n\<close>; an axis of any other type gives the
  dynamic type \<open>Object\<close>.
\<close>

theorem reduce_axis_policy:
  assumes "get_dtype ns dtype_arg (Some e) = Inr (Some (NumpyDtype k))"
  shows "reduce' ns (Some (Array e r)) None dtype_arg None = Inr (Some k) \<and>
         reduce' ns (Some (Array e r)) (Some (IntT w s)) dtype_arg None
           = Inr (Some (Array k (r - 1))) \<and>
         reduce' ns (Some (Array e r)) (Some (TupleT d n True)) dtype_arg None
           = Inr (Some (Array k (r - n))) \<and>
         (\<not> is_int ax \<and> \<not> (is_tuple ax \<and> is_sized ax) \<longrightarrow>
            reduce' ns (Some (Array e r)) (Some ax) dtype_arg None = Inr (Some Object)) \<and>
         (dtype_arg = None \<longrightarrow> k = e) \<and>
         np_sum = reduce' \<and> np_prod = reduce'"
  using assms by (auto simp: reduce'_def array_t_def np_sum_def np_prod_def)

theorem reduce_axis_policy_witness:
  "get_dtype no_members None (Some float64) = Inr (Some (NumpyDtype float64)) \<and>
   \<not> is_int float64 \<and> \<not> (is_tuple float64 \<and> is_sized float64) \<and>
   reduce' no_members (Some (Array float64 2)) None None None = Inr (Some float64) \<and>
   reduce' no_members (Some (Array float64 2)) (Some (IntT 64 True)) None None
     = Inr (Some (Array float64 1)) \<and>
   reduce' no_members (Some (Array float64 2)) (Some (TupleT int64 2 True)) None None
     = Inr (Some (Array float64 0)) \<and>
   reduce' no_members (Some (Array float64 2)) (Some float64) None None = Inr (Some Object)"
proof -
  have h: "get_dtype no_members None (Some float64) = Inr (Some (NumpyDtype float64))"
    by simp
  show ?thesis
    using h reduce_axis_policy [OF h, of 2 64 True int64 2 float64]
    by (simp add: float64_def)
qed

text \<open>
  C4: \<^verbatim>\<open>sum\<close> and \<^verbatim>\<open>prod\<close> with \<open>out\<close> absent on an array-typed input. The claim is
  that an absent axis gives the scalar of the resolved element kind, an integer or sized
  tuple axis the array of reduced rank, and any other axis the dynamic type, never an
  exception. The source reads \<^verbatim>\<open>dtype\<close> from the result of \<open>get_dtype\<close> before it looks
  at the axis, without the test for \<^verbatim>\<open>None\<close> that \<^verbatim>\<open>arange\<close> and \<^verbatim>\<open>empty_like\<close> make:
  with a dtype argument that is present and resolves to no result, every axis, absent,
  integer, sized tuple or other, raises \<^verbatim>\<open>AttributeError\<close>; with a dtype argument on
  which \<open>get_dtype\<close> raises, every axis raises \<^verbatim>\<open>TypeError\<close>.
\<close>

theorem reduce_unresolved_dtype_raises:
  "get_dtype ns (Some BoolT) (Some e) = Inr None \<and>
   reduce' ns (Some (Array e r)) axis (Some BoolT) None = Inl AttributeError \<and>
   np_sum ns (Some (Array e r)) (Some Object) (Some BoolT) None = Inl AttributeError \<and>
   np_prod ns (Some (Array e r)) (Some Object) (Some BoolT) None = Inl AttributeError \<and>
   np_sum ns (Some (Array e r)) None (Some BoolT) None = Inl AttributeError \<and>
   np_sum no_members (Some (Array e r)) axis (Some (NumpyAttribute m a)) None
     = Inl TypeError"
  by (simp add: reduce'_def np_sum_def np_prod_def getattr_default_def no_members_def)

text \<open>
  C5: \<^verbatim>\<open>dot\<close>. When \<open>out\<close> is present the result is its type. Otherwise, for operands
  whose types are promoted to arrays of element kinds \<open>ea\<close>, \<open>eb\<close> and ranks \<open>m\<close>, \<open>n\<close>,
  the result is the array of element kind \<open>promote_types ea eb\<close> and rank \<open>m + n - 2\<close>;
  an array of rank 2 and an array of rank 1 give rank 1.
\<close>

theorem dot_result:
  "dot ctx a b (Some out) = Inr (Some out) \<and>
   (promote_to_array ta = Array ea m \<and> promote_to_array tb = Array eb n \<longrightarrow>
      dot ctx (Some ta) (Some tb) None
        = Inr (Some (Array (promote_types ctx ea eb) (m + n - 2)))) \<and>
   dot ctx (Some (Array ea 2)) (Some (Array eb 1)) None
     = Inr (Some (Array (promote_types ctx ea eb) 1))"
  by (simp add: dot_def array_t_def promote_to_array_def)

theorem dot_result_witness:
  "promote_to_array float64 = Array float64 0 \<and>
   promote_to_array (Array int64 3) = Array int64 3 \<and>
   dot left_context (Some float64) (Some (Array int64 3)) None
     = Inr (Some (Array float64 1))"
  using dot_result [where ctx = left_context and ta = float64 and ea = float64 and m = 0
      and tb = "Array int64 3" and eb = int64 and n = 3]
  by (simp add: promote_to_array_def left_context_def float64_def)

text \<open>
  C6, as the source has it: \<^verbatim>\<open>nonzero\<close> of an argument whose type is an array of rank
  \<open>r\<close> gives the sized tuple of \<open>r\<close> index arrays. A scalar argument is first turned into
  an array of rank 0 by \<open>array_from_object\<close>, so that \<^verbatim>\<open>_nonzero\<close> takes its array branch
  and gives the sized tuple of 0 index arrays.
\<close>

theorem nonzero_tuple_size:
  "nonzero (Some (Array d r)) = Inr (Some (TupleT index_array_t r True)) \<and>
   nonzero (Some (FloatT w)) = Inr (Some (TupleT index_array_t 0 True)) \<and>
   nonzero (Some (IntT w s)) = Inr (Some (TupleT index_array_t 0 True)) \<and>
   nonzero (Some (ComplexT w)) = Inr (Some (TupleT index_array_t 0 True)) \<and>
   nonzero (Some BoolT) = Inr (Some (TupleT index_array_t 0 True))"
  by (simp add: nonzero_def nonzero'_def)

text \<open>
  C6 as stated, that a scalar argument gives a sized tuple of exactly one element, fails
  for a scalar \<open>float64\<close>: the tuple has no element.
\<close>

theorem nonzero_scalar_counterexample:
  "nonzero (Some float64) = Inr (Some (TupleT index_array_t 0 True)) \<and>
   nonzero (Some float64) \<noteq> Inr (Some (TupleT index_array_t 1 True))"
  by (simp add: nonzero_def nonzero'_def float64_def)

text \<open>
  C7, as the source has it: \<^verbatim>\<open>empty_like\<close> (also registered as \<^verbatim>\<open>zeros_like\<close> and
  \<^verbatim>\<open>ones_like\<close>) returns no result when \<open>a\<close> is absent and when the type of \<open>a\<close> is not an
  array. When it is an array of element kind \<open>e\<close> and rank \<open>r\<close>, the result is an array of
  rank \<open>r\<close>: of element kind \<open>k\<close> when the dtype argument is present and \<open>get_dtype\<close>
  resolves it to \<open>k\<close>, and of element kind \<open>e\<close> when the dtype argument is absent or
  \<open>get_dtype\<close> returns no result for it.
\<close>

theorem empty_like_result:
  "empty_like ns None dtype_arg order = Inr None \<and>
   (\<not> is_array t \<longrightarrow> empty_like ns (Some t) dtype_arg order = Inr None) \<and>
   empty_like ns (Some (Array e r)) None order = Inr (Some (Array e r)) \<and>
   (get_dtype ns (Some x) None = Inr (Some (NumpyDtype k)) \<longrightarrow>
      empty_like ns (Some (Array e r)) (Some x) order = Inr (Some (Array k r))) \<and>
   (get_dtype ns (Some y) None = Inr None \<longrightarrow>
      empty_like ns (Some (Array e r)) (Some y) order = Inr (Some (Array e r))) \<and>
   zeros_like = empty_like \<and> ones_like = empty_like"
  by (simp add: empty_like_def array_t_def zeros_like_def ones_like_def)

theorem empty_like_result_witness:
  "\<not> is_array int64 \<and>
   empty_like no_members (Some int64) None None = Inr None \<and>
   get_dtype no_members (Some (NumpyDtype int64)) None = Inr (Some (NumpyDtype int64)) \<and>
   empty_like no_members (Some (Array float64 2)) (Some (NumpyDtype int64)) None
     = Inr (Some (Array int64 2)) \<and>
   get_dtype no_members (Some BoolT) None = Inr None \<and>
   empty_like no_members (Some (Array float64 2)) (Some BoolT) None
     = Inr (Some (Array float64 2))"
  using empty_like_result [of no_members None None int64 float64 2 "NumpyDtype int64" int64 BoolT]
  by (simp add: int64_def)

text \<open>
  C7 as stated, that an argument \<open>a\<close> whose type is not an array gives the type of \<open>a\<close>
  back, fails for a scalar \<open>float64\<close>: the resolver returns no result.
\<close>

theorem empty_like_scalar_counterexample:
  "empty_like no_members (Some float64) None None = Inr None \<and>
   empty_like no_members (Some float64) None None \<noteq> Inr (Some float64)"
  by (simp add: empty_like_def float64_def)

text \<open>
  \<^verbatim>\<open>arange\<close> where \<open>get_dtype\<close> returns: with the dtype argument absent the result is
  the array of \<open>int64\<close> of rank 1; with a dtype argument that resolves to \<open>k\<close> it is the
  array of \<open>k\<close> of rank 1; with a dtype argument for which \<open>get_dtype\<close> returns no result
  there is no result.
\<close>

theorem arange_result:
  "arange ns start stop step None = Inr (Some (Array int64 1)) \<and>
   (get_dtype ns (Some x) (Some int64) = Inr (Some (NumpyDtype k)) \<longrightarrow>
      arange ns start stop step (Some x) = Inr (Some (Array k 1))) \<and>
   (get_dtype ns (Some y) (Some int64) = Inr None \<longrightarrow>
      arange ns start stop step (Some y) = Inr None)"
  by (simp add: arange_def)

theorem arange_result_witness:
  "get_dtype no_members (Some (NumpyDtype float64)) (Some int64)
     = Inr (Some (NumpyDtype float64)) \<and>
   arange no_members None None None (Some (NumpyDtype float64))
     = Inr (Some (Array float64 1)) \<and>
   get_dtype no_members (Some BoolT) (Some int64) = Inr None \<and>
   arange no_members None None None (Some BoolT) = Inr None"
  using arange_result [of no_members None None None "NumpyDtype float64" float64 BoolT]
  by simp

text \<open>
  C8: \<^verbatim>\<open>arange\<close>. The claim is that an absent dtype argument gives the array of \<open>int64\<close>
  of rank 1, a resolvable one the array of its element kind of rank 1, and a present,
  unresolvable one no result. The first holds. The last fails for a dtype argument that
  is an attribute token naming no member of the namespace, or a member that is a plain
  value: \<open>resolve_attribute_dtype\<close> raises \<^verbatim>\<open>TypeError\<close> on it, and \<^verbatim>\<open>arange\<close>, which only
  tests the returned value for \<^verbatim>\<open>None\<close>, raises with it.
\<close>

theorem arange_unresolvable_dtype_raises:
  "arange ns start stop step None = Inr (Some (Array int64 1)) \<and>
   arange no_members start stop step (Some (NumpyAttribute m a)) = Inl TypeError \<and>
   arange value_members start stop step (Some (NumpyAttribute m a)) = Inl TypeError \<and>
   arange no_members start stop step (Some (NumpyAttribute m a)) \<noteq> Inr None"
  by (simp add: arange_def getattr_default_def no_members_def value_members_def)

text \<open>
  C9, as the source has it: the resolvers subtract ranks without validating the result.
  For an array of rank \<open>r\<close>, \<^verbatim>\<open>sum\<close>/\<^verbatim>\<open>prod\<close> with a sized tuple axis of \<open>n\<close> elements
  return the array type of rank \<open>r - n\<close>, which is not negative exactly when \<open>n \<le> r\<close>;
  with an integer axis they return rank \<open>r - 1\<close>, not negative exactly when \<open>1 \<le> r\<close>;
  \<^verbatim>\<open>dot\<close> of arrays of ranks \<open>m\<close> and \<open>n'\<close> returns rank \<open>m + n' - 2\<close>, not negative
  exactly when \<open>2 \<le> m + n'\<close>.
\<close>

theorem reduce_rank_nonneg:
  assumes "get_dtype ns dtype_arg (Some e) = Inr (Some (NumpyDtype k))"
  shows "reduce' ns (Some (Array e r)) (Some (TupleT d n True)) dtype_arg None
           = Inr (Some (Array k (r - n))) \<and>
         nonneg_rank (Array k (r - n)) = (n \<le> r) \<and>
         reduce' ns (Some (Array e r)) (Some (IntT w s)) dtype_arg None
           = Inr (Some (Array k (r - 1))) \<and>
         nonneg_rank (Array k (r - 1)) = (1 \<le> r) \<and>
         dot ctx (Some (Array ea m)) (Some (Array eb n')) None
           = Inr (Some (Array (promote_types ctx ea eb) (m + n' - 2))) \<and>
         nonneg_rank (Array (promote_types ctx ea eb) (m + n' - 2)) = (2 \<le> m + n')"
  using assms
  by (auto simp: reduce'_def dot_def promote_to_array_def array_t_def)

theorem reduce_rank_nonneg_witness:
  "get_dtype no_members None (Some float64) = Inr (Some (NumpyDtype float64)) \<and>
   reduce' no_members (Some (Array float64 3)) (Some (TupleT int64 2 True)) None None
     = Inr (Some (Array float64 1)) \<and>
   nonneg_rank (Array float64 1) \<and>
   reduce' no_members (Some (Array float64 3)) (Some (IntT 64 True)) None None
     = Inr (Some (Array float64 2)) \<and>
   dot left_context (Some (Array float64 2)) (Some (Array int64 1)) None
     = Inr (Some (Array float64 1))"
proof -
  have h: "get_dtype no_members None (Some float64) = Inr (Some (NumpyDtype float64))"
    by simp
  show ?thesis
    using h reduce_rank_nonneg [OF h, where r = 3 and d = int64 and n = 2 and w = 64
        and s = True and ctx = left_context and ea = float64 and m = 2 and eb = int64
        and n' = 1]
    by (simp add: left_context_def)
qed

text \<open>
  C9 as stated, that the rank is not negative also when the axis has more elements than
  the array has dimensions, fails for an array of rank 1 and an axis of 2 elements: the
  result is an array type of rank \<open>- 1\<close>.
\<close>

theorem reduce_negative_rank_counterexample:
  "reduce' no_members (Some (Array float64 1)) (Some (TupleT int64 2 True)) None None
     = Inr (Some (Array float64 (- 1))) \<and>
   \<not> nonneg_rank (Array float64 (- 1))"
  by (simp add: reduce'_def array_t_def)

end
